theory Spec2Isabelle
  imports
    Complex_Main
    "HOL-Library.Char_ord"
    "HOL-Library.List_Lexorder"
begin

section \<open>dobishem.storage: values, exceptions and the file system\<close>

text \<open>
  The module \<^verbatim>\<open>src/dobishem/storage.py\<close> reads and writes CSV, JSON and YAML files.
  Its functions are embedded here one by one, under their own names. A Python exception
  is the left summand of the result; a function that touches the file system takes the
  world and, when it can write, returns the new one.
\<close>

subsection \<open>Exceptions\<close>

text \<open>
  The first group are the builtin exception classes the statements of the module can
  raise. \<^verbatim>\<open>DecodeError\<close> stands for what the csv, json and yaml parsers raise on malformed
  text. The module defines no exception class of its own: \<^verbatim>\<open>NotFoundError\<close> and
  \<^verbatim>\<open>UnsupportedFormatError\<close> are names of the specification's error taxonomy, listed so
  that statements about them can be written; no definition below produces them.
\<close>

datatype error =
    FileNotFoundError
  | IsADirectoryError
  | KeyError
  | IndexError
  | TypeError
  | NameError
  | AttributeError
  | UnboundLocalError
  | DecodeError
  | NotFoundError
  | UnsupportedFormatError

subsection \<open>Python values\<close>

text \<open>
  The decoded content of a file, and what the callers hand to the writers. A \<^verbatim>\<open>dict\<close> keeps
  its insertion order, so it is an association list (with distinct keys).
\<close>

datatype pyval =
    PNone
  | PInt int
  | PStr string
  | PList "pyval list"
  | PDict "(string \<times> pyval) list"

text \<open>A dictionary key as \<^verbatim>\<open>READERS[...]\<close> sees it: a string, or a pair of strings.\<close>

datatype pykey = KStr string | KTuple string string

text \<open>Running a function that may raise over a list, stopping at the first exception.\<close>

fun map_result :: "('a \<Rightarrow> error + 'b) \<Rightarrow> 'a list \<Rightarrow> error + 'b list" where
  "map_result f [] = Inr []"
| "map_result f (x # xs) =
     (case f x of
        Inl e \<Rightarrow> Inl e
      | Inr y \<Rightarrow> (case map_result f xs of Inl e \<Rightarrow> Inl e | Inr ys \<Rightarrow> Inr (y # ys)))"

text \<open>\<^verbatim>\<open>for x in v\<close>: a list gives its elements, a dict its keys, a string its characters.\<close>

fun py_iter :: "pyval \<Rightarrow> error + pyval list" where
  "py_iter (PList xs) = Inr xs"
| "py_iter (PDict kvs) = Inr (map (\<lambda>kv. PStr (fst kv)) kvs)"
| "py_iter (PStr s) = Inr (map (\<lambda>c. PStr [c]) s)"
| "py_iter PNone = Inl TypeError"
| "py_iter (PInt n) = Inl TypeError"

text \<open>\<^verbatim>\<open>row[column]\<close> with a string \<^verbatim>\<open>column\<close>: only a dict can be indexed by a string.\<close>

fun py_getitem_str :: "string \<Rightarrow> pyval \<Rightarrow> error + pyval" where
  "py_getitem_str column (PDict kvs) =
     (case map_of kvs column of None \<Rightarrow> Inl KeyError | Some v \<Rightarrow> Inr v)"
| "py_getitem_str column v = Inl TypeError"

subsection \<open>The file system\<close>

text \<open>
  A path names a regular file with its text, or a directory; every entry has a
  modification time (\<^verbatim>\<open>os.path.getmtime\<close> gives seconds as a number; only their order is
  used). Paths are taken as the operating system receives them: neither \<^verbatim>\<open>~\<close> nor
  \<^verbatim>\<open>$VAR\<close> means anything to it. Permissions are not modelled. \<^verbatim>\<open>clock\<close> is the time a
  write stamps on the file.
\<close>

datatype node = RegularFile string | Directory

record entry =
  mtime :: real
  node :: node

record world =
  entries :: "string \<rightharpoonup> entry"
  clock :: real

text \<open>
  What the module takes from its libraries and from the process environment:
  \<^verbatim>\<open>os.path.expanduser\<close>, \<^verbatim>\<open>os.path.expandvars\<close>, \<^verbatim>\<open>glob.glob\<close> and the parsers
  \<^verbatim>\<open>json.load\<close> and \<^verbatim>\<open>csv.reader\<close> (applied to the text of an open file).
\<close>

record env =
  expanduser :: "string \<Rightarrow> string"
  expandvars :: "string \<Rightarrow> string"
  glob_glob :: "world \<Rightarrow> string \<Rightarrow> string list"
  json_load :: "string \<Rightarrow> error + pyval"
  csv_reader :: "string \<Rightarrow> error + string list list"

subsection \<open>Path functions of \<^verbatim>\<open>os.path\<close>\<close>

text \<open>\<^verbatim>\<open>s.rfind(c)\<close>: the last index of \<^verbatim>\<open>c\<close> in \<^verbatim>\<open>s\<close>, or -1.\<close>

fun rfind_from :: "char \<Rightarrow> string \<Rightarrow> int \<Rightarrow> int \<Rightarrow> int" where
  "rfind_from c [] i found = found"
| "rfind_from c (x # xs) i found = rfind_from c xs (i + 1) (if x = c then i else found)"

definition rfind :: "char \<Rightarrow> string \<Rightarrow> int" where
  "rfind c s = rfind_from c s 0 (-1)"

text \<open>
  \<^verbatim>\<open>os.path.splitext\<close> (\<^verbatim>\<open>genericpath._splitext\<close> with \<^verbatim>\<open>sep='/'\<close>, \<^verbatim>\<open>extsep='.'\<close>): the
  extension starts at the last dot of the last component, unless only dots come before it
  in that component. The loop skips the leading dots.
\<close>

function skip_leading_dots :: "string \<Rightarrow> nat \<Rightarrow> nat \<Rightarrow> string \<times> string" where
  "skip_leading_dots p filenameIndex dotIndex =
     (if filenameIndex < dotIndex
      then (if take 1 (drop filenameIndex p) \<noteq> ''.''
            then (take dotIndex p, drop dotIndex p)
            else skip_leading_dots p (filenameIndex + 1) dotIndex)
      else (p, []))"
  by pat_completeness auto
termination
  by (relation "measure (\<lambda>(p, filenameIndex, dotIndex). dotIndex - filenameIndex)") auto

definition splitext :: "string \<Rightarrow> string \<times> string" where
  "splitext p =
     (let sepIndex = rfind CHR ''/'' p;
          dotIndex = rfind CHR ''.'' p
      in if dotIndex > sepIndex
         then skip_leading_dots p (nat (sepIndex + 1)) (nat dotIndex)
         else (p, []))"

text \<open>\<^verbatim>\<open>s.rstrip('/')\<close>.\<close>

definition rstrip_slash :: "string \<Rightarrow> string" where
  "rstrip_slash s = rev (dropWhile (\<lambda>c. c = CHR ''/'') (rev s))"

text \<open>\<^verbatim>\<open>os.path.dirname\<close> (posixpath): everything up to the last slash, without trailing
  slashes unless it consists of slashes only.\<close>

definition dirname :: "string \<Rightarrow> string" where
  "dirname p =
     (let i = nat (rfind CHR ''/'' p + 1);
          head = take i p
      in if head \<noteq> [] \<and> head \<noteq> replicate (length head) CHR ''/''
         then rstrip_slash head
         else head)"

subsection \<open>The builtin \<^verbatim>\<open>open\<close>, \<^verbatim>\<open>os.path.getmtime\<close> and \<^verbatim>\<open>os.path.exists\<close>\<close>

text \<open>\<^verbatim>\<open>open(path)\<close> for reading, followed by reading the stream: the text of the file.\<close>

definition py_open_r :: "string \<Rightarrow> world \<Rightarrow> error + string" where
  "py_open_r path w =
     (case entries w path of
        None \<Rightarrow> Inl FileNotFoundError
      | Some e \<Rightarrow> (case node e of Directory \<Rightarrow> Inl IsADirectoryError | RegularFile t \<Rightarrow> Inr t))"

text \<open>
  \<^verbatim>\<open>open(path, 'w')\<close>: the file is created or truncated at once, in a directory that
  exists (the empty directory name is the current directory).
\<close>

definition is_dir :: "world \<Rightarrow> string \<Rightarrow> bool" where
  "is_dir w path =
     (case entries w path of None \<Rightarrow> False | Some e \<Rightarrow> node e = Directory)"

definition py_open_w :: "string \<Rightarrow> world \<Rightarrow> (error + unit) \<times> world" where
  "py_open_w path w =
     (if is_dir w path then (Inl IsADirectoryError, w)
      else if path = [] \<or> (dirname path \<noteq> [] \<and> \<not> is_dir w (dirname path))
      then (Inl FileNotFoundError, w)
      else (Inr (),
            w\<lparr>entries := (entries w)(path \<mapsto> \<lparr>mtime = clock w, node = RegularFile []\<rparr>)\<rparr>))"

definition getmtime :: "world \<Rightarrow> string \<Rightarrow> error + real" where
  "getmtime w path =
     (case entries w path of None \<Rightarrow> Inl FileNotFoundError | Some e \<Rightarrow> Inr (mtime e))"

definition path_exists :: "world \<Rightarrow> string \<Rightarrow> bool" where
  "path_exists w path = (entries w path \<noteq> None)"

section \<open>The functions of the module\<close>

subsection \<open>Opening files\<close>

text \<open>\<^verbatim>\<open>_expand\<close> of the source (a name cannot start with an underscore here).\<close>

definition expand :: "env \<Rightarrow> string \<Rightarrow> string" where
  "expand env filename = expandvars env (expanduser env filename)"

text \<open>\<^verbatim>\<open>open_for_read(filename)\<close>: the stream is modelled by the text it yields.\<close>

definition open_for_read :: "env \<Rightarrow> string \<Rightarrow> world \<Rightarrow> error + string" where
  "open_for_read env filename w = py_open_r (expand env filename) w"

text \<open>
  \<^verbatim>\<open>open_for_read(filename, 'w')\<close>, as \<^verbatim>\<open>write_json\<close> and \<^verbatim>\<open>write_yaml\<close> call it: the extra
  argument is passed on to \<^verbatim>\<open>open\<close>, which therefore opens the file for writing.
\<close>

definition open_for_read_w :: "env \<Rightarrow> string \<Rightarrow> world \<Rightarrow> (error + unit) \<times> world" where
  "open_for_read_w env filename w = py_open_w (expand env filename) w"

text \<open>
  \<^verbatim>\<open>os.makedirs(name, exists_ok=True)\<close>: the keyword of \<^verbatim>\<open>os.makedirs\<close> is \<^verbatim>\<open>exist_ok\<close>, so the
  call raises \<^verbatim>\<open>TypeError\<close> (unexpected keyword argument) before it does anything.
\<close>

definition makedirs_exists_ok :: "string \<Rightarrow> world \<Rightarrow> (error + unit) \<times> world" where
  "makedirs_exists_ok name w = (Inl TypeError, w)"

definition open_for_write :: "env \<Rightarrow> string \<Rightarrow> world \<Rightarrow> (error + unit) \<times> world" where
  "open_for_write env filename w =
     (let full_name = expand env filename
      in case makedirs_exists_ok (dirname full_name) w of
           (Inl e, w') \<Rightarrow> (Inl e, w')
         | (Inr u, w') \<Rightarrow> py_open_w full_name w')"

subsection \<open>CSV\<close>

text \<open>
  \<^verbatim>\<open>result_type\<close> and \<^verbatim>\<open>row_type\<close> are classes (\<^verbatim>\<open>list\<close>, \<^verbatim>\<open>dict\<close>, \<^verbatim>\<open>set\<close>, \<^verbatim>\<open>tuple\<close>).
  \<^verbatim>\<open>read_csv\<close> tests them with \<^verbatim>\<open>isinstance(row_type, dict)\<close>, \<^verbatim>\<open>isinstance(row_type, tuple)\<close>
  and \<^verbatim>\<open>isinstance(result_type, set)\<close>; a class is an instance of none of these, so all
  three tests are false whatever is passed: the rows come from \<^verbatim>\<open>csv.reader\<close>, the
  \<^verbatim>\<open>set\<close> branch is skipped, and the final expression tests \<^verbatim>\<open>isinstance(result, dict)\<close>
  on a local variable that was never assigned.
\<close>

datatype pytype = TyList | TyDict | TySet | TyTuple

definition read_csv ::
  "env \<Rightarrow> string \<Rightarrow> pytype \<Rightarrow> pytype \<Rightarrow> string option \<Rightarrow> world \<Rightarrow> error + pyval" where
  "read_csv env filename result_type row_type key_column w =
     (case open_for_read env filename w of
        Inl e \<Rightarrow> Inl e
      | Inr text \<Rightarrow>
          (case csv_reader env text of
             Inl e \<Rightarrow> Inl e
           | Inr rows \<Rightarrow> Inl UnboundLocalError))"

definition default_read_csv :: "env \<Rightarrow> string \<Rightarrow> world \<Rightarrow> error + pyval" where
  "default_read_csv env filename w = read_csv env filename TyList TyDict (Some ''Date'') w"

text \<open>
  \<^verbatim>\<open>sorted(rows, key=...)\<close>: the keys of all rows are computed first, in order, then the
  rows are sorted stably by key. Keys that are all strings or all integers are ordered;
  with two or more rows any other keys (\<^verbatim>\<open>None\<close>, dicts, a string beside an integer) make
  the comparison raise \<^verbatim>\<open>TypeError\<close>. List-valued keys, which Python orders
  lexicographically, are not modelled: a CSV cell is a scalar.
\<close>

fun the_str :: "pyval \<Rightarrow> string option" where
  "the_str (PStr s) = Some s"
| "the_str v = None"

fun the_int :: "pyval \<Rightarrow> int option" where
  "the_int (PInt n) = Some n"
| "the_int v = None"

definition sorted_by :: "(pyval \<Rightarrow> error + pyval) \<Rightarrow> pyval \<Rightarrow> error + pyval list" where
  "sorted_by key rows =
     (case py_iter rows of
        Inl e \<Rightarrow> Inl e
      | Inr xs \<Rightarrow>
          (case map_result key xs of
             Inl e \<Rightarrow> Inl e
           | Inr ks \<Rightarrow>
               if length xs \<le> 1 then Inr xs
               else (case those (map the_str ks) of
                       Some ss \<Rightarrow> Inr (map snd (sort_key fst (zip ss xs)))
                     | None \<Rightarrow>
                         (case those (map the_int ks) of
                            Some ns \<Rightarrow> Inr (map snd (sort_key fst (zip ns xs)))
                          | None \<Rightarrow> Inl TypeError))))"

text \<open>\<^verbatim>\<open>if sort_column:\<close> holds for a non-empty string.\<close>

fun truthy :: "string option \<Rightarrow> bool" where
  "truthy None = False"
| "truthy (Some s) = (s \<noteq> [])"

fun is_dict :: "pyval \<Rightarrow> bool" where
  "is_dict (PDict kvs) = True"
| "is_dict v = False"

text \<open>
  The body of the \<^verbatim>\<open>with\<close> statement of \<^verbatim>\<open>write_csv\<close>, entered with an open stream.
  \<^verbatim>\<open>rows[0]\<close> needs a first row. Then the writer is built without the stream:
  \<^verbatim>\<open>csv.DictWriter(fieldnames=...)\<close> lacks its argument \<^verbatim>\<open>f\<close> and \<^verbatim>\<open>csv.writer()\<close> its file,
  and both raise \<^verbatim>\<open>TypeError\<close>; for dict rows the \<^verbatim>\<open>fieldnames\<close> argument is evaluated
  first, where \<^verbatim>\<open>row.keys()\<close> raises \<^verbatim>\<open>AttributeError\<close> on a row that is no dict. Nothing is
  written to the stream on any path.
\<close>

definition write_rows :: "string option \<Rightarrow> pyval list \<Rightarrow> error + unit" where
  "write_rows sort_column rows =
     (case rows of
        [] \<Rightarrow> Inl IndexError
      | row0 # rest \<Rightarrow>
          if is_dict row0
          then (if list_all is_dict rows then Inl TypeError else Inl AttributeError)
          else Inl TypeError)"

text \<open>
  \<^verbatim>\<open>write_csv(filename, data, flatten=False, sort_column=None)\<close>. With \<^verbatim>\<open>flatten\<close> the
  expression names \<^verbatim>\<open>operator\<close>, which the module never imports. The assignment to
  \<^verbatim>\<open>headers\<close> (lines 85 and 86 of the source) is incomplete as written and its value is
  used nowhere; it is left out. In the body, \<^verbatim>\<open>rows[0]\<close> cannot index the unsorted values
  view of a dict, nor \<^verbatim>\<open>None\<close> or a number; the first element of a string is a string,
  for which \<^verbatim>\<open>csv.writer()\<close> is called.
\<close>

definition write_csv ::
  "env \<Rightarrow> string \<Rightarrow> pyval \<Rightarrow> bool \<Rightarrow> string option \<Rightarrow> world \<Rightarrow> (error + pyval) \<times> world" where
  "write_csv env filename data flatten sort_column w =
     (let rows_or_groups = (case data of PDict kvs \<Rightarrow> PList (map snd kvs) | _ \<Rightarrow> data)
      in case (if flatten then Inl NameError else Inr rows_or_groups) of
           Inl e \<Rightarrow> (Inl e, w)
         | Inr rows \<Rightarrow>
             (case (if truthy sort_column
                    then (case sorted_by (py_getitem_str (the sort_column)) rows of
                            Inl e \<Rightarrow> Inl e
                          | Inr xs \<Rightarrow> Inr (PList xs))
                    else Inr rows) of
                Inl e \<Rightarrow> (Inl e, w)
              | Inr rows' \<Rightarrow>
                  (case open_for_write env filename w of
                     (Inl e, w') \<Rightarrow> (Inl e, w')
                   | (Inr outstream, w') \<Rightarrow>
                       (case (if is_dict data \<and> \<not> truthy sort_column then Inl TypeError
                              else (case rows' of
                                      PList xs \<Rightarrow> write_rows sort_column xs
                                    | PStr s \<Rightarrow> if s = [] then Inl IndexError else Inl TypeError
                                    | _ \<Rightarrow> Inl TypeError)) of
                          Inl e \<Rightarrow> (Inl e, w')
                        | Inr u \<Rightarrow> (Inr data, w')))))"

definition default_write_csv ::
  "env \<Rightarrow> string \<Rightarrow> pyval \<Rightarrow> world \<Rightarrow> (error + pyval) \<times> world" where
  "default_write_csv env filename data w = write_csv env filename data False (Some ''Date'') w"

subsection \<open>JSON and YAML\<close>

definition read_json :: "env \<Rightarrow> string \<Rightarrow> world \<Rightarrow> error + pyval" where
  "read_json env filename w =
     (case open_for_read env filename w of
        Inl e \<Rightarrow> Inl e
      | Inr text \<Rightarrow> json_load env text)"

text \<open>
  \<^verbatim>\<open>json.dump(outstream)\<close>: \<^verbatim>\<open>json.dump(obj, fp)\<close> called without \<^verbatim>\<open>fp\<close> raises \<^verbatim>\<open>TypeError\<close>.
  The file has been opened for writing by then, so it is left empty.
\<close>

definition write_json :: "env \<Rightarrow> string \<Rightarrow> pyval \<Rightarrow> world \<Rightarrow> (error + pyval) \<times> world" where
  "write_json env filename data w =
     (case open_for_read_w env filename w of
        (Inl e, w') \<Rightarrow> (Inl e, w')
      | (Inr outstream, w') \<Rightarrow> (Inl TypeError, w'))"

text \<open>The yaml module has no attribute \<^verbatim>\<open>safeload\<close> (its function is \<^verbatim>\<open>safe_load\<close>).\<close>

definition read_yaml :: "env \<Rightarrow> string \<Rightarrow> world \<Rightarrow> error + pyval" where
  "read_yaml env filename w =
     (case open_for_read env filename w of
        Inl e \<Rightarrow> Inl e
      | Inr text \<Rightarrow> Inl AttributeError)"

text \<open>
  \<^verbatim>\<open>yaml.dump(outstream)\<close> takes the stream as the data to serialise and has no stream to
  write to; a stream object cannot be represented, which raises \<^verbatim>\<open>TypeError\<close>.
\<close>

definition write_yaml :: "env \<Rightarrow> string \<Rightarrow> pyval \<Rightarrow> world \<Rightarrow> (error + pyval) \<times> world" where
  "write_yaml env filename data w =
     (case open_for_read_w env filename w of
        (Inl e, w') \<Rightarrow> (Inl e, w')
      | (Inr outstream, w') \<Rightarrow> (Inl TypeError, w'))"

subsection \<open>Dispatch on the file name\<close>

definition READERS :: "(pykey \<times> (env \<Rightarrow> string \<Rightarrow> world \<Rightarrow> error + pyval)) list" where
  "READERS =
     [(KStr ''csv'', default_read_csv),
      (KStr ''json'', read_json),
      (KStr ''yaml'', read_yaml)]"

definition WRITERS ::
  "(pykey \<times> (env \<Rightarrow> string \<Rightarrow> pyval \<Rightarrow> world \<Rightarrow> (error + pyval) \<times> world)) list" where
  "WRITERS =
     [(KStr ''csv'', default_write_csv),
      (KStr ''json'', write_json),
      (KStr ''yaml'', write_yaml)]"

text \<open>
  \<^verbatim>\<open>READERS[os.path.splitext(filename)](filename)\<close>: the key looked up is the pair that
  \<^verbatim>\<open>splitext\<close> returns.
\<close>

definition load :: "env \<Rightarrow> string \<Rightarrow> world \<Rightarrow> error + pyval" where
  "load env filename w =
     (case map_of READERS (case splitext filename of (stem, ext) \<Rightarrow> KTuple stem ext) of
        None \<Rightarrow> Inl KeyError
      | Some reader \<Rightarrow> reader env filename w)"

definition save :: "env \<Rightarrow> string \<Rightarrow> pyval \<Rightarrow> world \<Rightarrow> (error + pyval) \<times> world" where
  "save env filename data w =
     (case map_of WRITERS (case splitext filename of (stem, ext) \<Rightarrow> KTuple stem ext) of
        None \<Rightarrow> (Inl KeyError, w)
      | Some writer \<Rightarrow> writer env filename data w)"

text \<open>The argument \<^verbatim>\<open>function\<close> is called without arguments, and only when the file is absent.\<close>

definition function_cached_with_file ::
  "env \<Rightarrow> (unit \<Rightarrow> error + pyval) \<Rightarrow> string \<Rightarrow> world \<Rightarrow> (error + pyval) \<times> world" where
  "function_cached_with_file env fn filename w =
     (if path_exists w filename
      then (load env filename w, w)
      else (case fn () of
              Inl e \<Rightarrow> (Inl e, w)
            | Inr contents \<Rightarrow> save env filename contents w))"

subsection \<open>Modification times\<close>

definition modified :: "world \<Rightarrow> string \<Rightarrow> error + real" where
  "modified w filename = getmtime w filename"

text \<open>\<^verbatim>\<open>sorted(filenames, key=modified)\<close>: all keys first, then a stable sort.\<close>

definition in_modification_order :: "world \<Rightarrow> string list \<Rightarrow> error + string list" where
  "in_modification_order w filenames =
     (case map_result (modified w) filenames of
        Inl e \<Rightarrow> Inl e
      | Inr mtimes \<Rightarrow> Inr (map snd (sort_key fst (zip mtimes filenames))))"

text \<open>The argument of \<^verbatim>\<open>most_recently_modified\<close>: a string (a glob pattern) or a list.\<close>

datatype filenames = Pattern string | Names "string list"

definition most_recently_modified :: "env \<Rightarrow> world \<Rightarrow> filenames \<Rightarrow> error + string" where
  "most_recently_modified env w filenames =
     (let names = (case filenames of Pattern pat \<Rightarrow> glob_glob env w pat | Names l \<Rightarrow> l)
      in case in_modification_order w names of
           Inl e \<Rightarrow> Inl e
         | Inr ordered \<Rightarrow> if ordered = [] then Inl IndexError else Inr (last ordered))"

subsection \<open>\<^verbatim>\<open>combined\<close>\<close>

text \<open>
  \<^verbatim>\<open>load[origin]\<close> subscripts the function \<^verbatim>\<open>load\<close> instead of calling it: a function
  object cannot be subscripted, \<^verbatim>\<open>TypeError\<close>.
\<close>

definition load_subscript :: "string \<Rightarrow> error + pyval" where
  "load_subscript origin = Inl TypeError"

text \<open>
  The condition is evaluated first, left operand first. \<^verbatim>\<open>origins\<close> is a dict from file
  name to converter; iterating it in \<^verbatim>\<open>most_recently_modified\<close> gives its keys. On the
  first branch the argument of \<^verbatim>\<open>save\<close> is evaluated before \<^verbatim>\<open>save\<close> is entered.
\<close>

definition combined ::
  "env \<Rightarrow> string \<Rightarrow> (pyval list list \<Rightarrow> error + pyval) \<Rightarrow>
   (string \<times> (pyval \<Rightarrow> error + pyval)) list \<Rightarrow> world \<Rightarrow> (error + pyval) \<times> world" where
  "combined env destination combiner origins w =
     (case modified w destination of
        Inl e \<Rightarrow> (Inl e, w)
      | Inr destination_time \<Rightarrow>
          (case most_recently_modified env w (Names (map fst origins)) of
             Inl e \<Rightarrow> (Inl e, w)
           | Inr newest \<Rightarrow>
               (case modified w newest of
                  Inl e \<Rightarrow> (Inl e, w)
                | Inr origin_time \<Rightarrow>
                    if destination_time < origin_time
                    then (case map_result
                                 (\<lambda>(origin, converter).
                                    case load_subscript origin of
                                      Inl e \<Rightarrow> Inl e
                                    | Inr content \<Rightarrow>
                                        (case py_iter content of
                                           Inl e \<Rightarrow> Inl e
                                         | Inr records \<Rightarrow> map_result converter records))
                                 origins of
                            Inl e \<Rightarrow> (Inl e, w)
                          | Inr sequences \<Rightarrow>
                              (case combiner sequences of
                                 Inl e \<Rightarrow> (Inl e, w)
                               | Inr result \<Rightarrow> save env destination result w))
                    else (load env destination w, w))))"

section \<open>Concrete environments and file systems\<close>

text \<open>
  A process whose home directory is \<^verbatim>\<open>/home/u\<close>, with no variable reference in the paths
  used below. \<^verbatim>\<open>glob.glob\<close> is given for patterns that name no existing file other than
  literally: such a pattern matches itself if it exists, and nothing otherwise. The JSON
  parser is given on the one text the examples store.
\<close>

definition home_expanduser :: "string \<Rightarrow> string" where
  "home_expanduser p = (if p = ''~'' \<or> take 2 p = ''~/'' then ''/home/u'' @ drop 1 p else p)"

definition literal_glob :: "world \<Rightarrow> string \<Rightarrow> string list" where
  "literal_glob w pat = (if path_exists w pat then [pat] else [])"

definition example_env :: env where
  "example_env =
     \<lparr>expanduser = home_expanduser,
      expandvars = (\<lambda>p. p),
      glob_glob = literal_glob,
      json_load = (\<lambda>t. if t = ''[]'' then Inr (PList []) else Inl DecodeError),
      csv_reader = (\<lambda>t. Inr [])\<rparr>"

definition empty_file :: "real \<Rightarrow> entry" where
  "empty_file t = \<lparr>mtime = t, node = RegularFile []\<rparr>"

definition json_file :: "real \<Rightarrow> entry" where
  "json_file t = \<lparr>mtime = t, node = RegularFile ''[]''\<rparr>"

text \<open>Three files \<^verbatim>\<open>a\<close>, \<^verbatim>\<open>b\<close>, \<^verbatim>\<open>c\<close> modified at times 1, 3 and 2.\<close>

definition abc_world :: world where
  "abc_world =
     \<lparr>entries = [''a'' \<mapsto> empty_file 1, ''b'' \<mapsto> empty_file 3, ''c'' \<mapsto> empty_file 2],
      clock = 10\<rparr>"

definition empty_world :: world where
  "empty_world = \<lparr>entries = Map.empty, clock = 10\<rparr>"

text \<open>A destination older than its origin, and one newer than its origin.\<close>

definition stale_world :: world where
  "stale_world =
     \<lparr>entries = [''out.json'' \<mapsto> json_file 1, ''in.json'' \<mapsto> json_file 2], clock = 10\<rparr>"

definition fresh_world :: world where
  "fresh_world =
     \<lparr>entries = [''out.json'' \<mapsto> json_file 5, ''in.json'' \<mapsto> json_file 2], clock = 10\<rparr>"

definition home_world :: world where
  "home_world =
     \<lparr>entries = [''/home'' \<mapsto> \<lparr>mtime = 0, node = Directory\<rparr>,
                 ''/home/u'' \<mapsto> \<lparr>mtime = 0, node = Directory\<rparr>,
                 ''/home/u/notes.json'' \<mapsto> json_file 5],
      clock = 10\<rparr>"

text \<open>An origin set with one file and the identity converter, and a combiner that
  concatenates the per-origin sequences.\<close>

definition in_origins :: "(string \<times> (pyval \<Rightarrow> error + pyval)) list" where
  "in_origins = [(''in.json'', \<lambda>entry. Inr entry)]"

definition concat_combiner :: "pyval list list \<Rightarrow> error + pyval" where
  "concat_combiner sequences = Inr (PList (concat sequences))"

text \<open>Two dated rows, the later one first.\<close>

definition row_feb :: pyval where
  "row_feb = PDict [(''Date'', PStr ''2024-02-01''), (''Item'', PStr ''tea'')]"

definition row_jan :: pyval where
  "row_jan = PDict [(''Date'', PStr ''2024-01-01''), (''Item'', PStr ''ink'')]"

section \<open>Properties\<close>

subsection \<open>Auxiliary facts\<close>

lemma sorted_le_last: "sorted xs \<Longrightarrow> x \<in> set xs \<Longrightarrow> x \<le> last xs"
  by (induction xs) auto

lemma sort_key_not_Nil:
  assumes "zs \<noteq> []"
  shows "sort_key f zs \<noteq> []"
proof
  assume e: "sort_key f zs = []"
  have "set zs = set (sort_key f zs)" by simp
  also have "\<dots> = {}" by (simp only: e set_simps)
  finally have "zs = []" by simp
  with assms show False by contradiction
qed

lemma last_sort_key_max:
  assumes "zs \<noteq> []"
  shows "last (sort_key fst zs) \<in> set zs \<and> (\<forall>z\<in>set zs. fst z \<le> fst (last (sort_key fst zs)))"
proof -
  let ?s = "sort_key fst zs"
  have ne: "?s \<noteq> []" using assms by (rule sort_key_not_Nil)
  have "last ?s \<in> set ?s" using ne by (rule last_in_set)
  then have 1: "last ?s \<in> set zs" by (simp only: set_sort)
  have srt: "sorted (map fst ?s)" by simp
  have 2: "fst z \<le> fst (last ?s)" if "z \<in> set zs" for z
  proof -
    have "fst z \<in> set (map fst ?s)" using that by simp
    then have "fst z \<le> last (map fst ?s)" by (rule sorted_le_last [OF srt])
    then show ?thesis using ne by (simp add: last_map)
  qed
  show ?thesis using 1 2 by blast
qed

lemma map_result_modified:
  "\<forall>f\<in>set fs. path_exists w f \<Longrightarrow>
   map_result (modified w) fs = Inr (map (\<lambda>f. mtime (the (entries w f))) fs)"
  by (induction fs) (auto simp: modified_def getmtime_def path_exists_def)

lemma zip_map_self: "zip (map g fs) fs = map (\<lambda>f. (g f, f)) fs"
  by (induction fs) auto

text \<open>The table lookups of \<^verbatim>\<open>load\<close> and \<^verbatim>\<open>save\<close> never find the pair they look up.\<close>

lemma load_KeyError: "load env filename w = Inl KeyError"
  by (simp add: load_def READERS_def split: prod.split)

lemma save_KeyError: "save env filename data w = (Inl KeyError, w)"
  by (simp add: save_def WRITERS_def split: prod.split)

lemma combined_world_unchanged: "snd (combined env destination combiner origins w) = w"
  by (simp add: combined_def save_KeyError split: sum.split)

lemma open_for_write_TypeError: "open_for_write env filename w = (Inl TypeError, w)"
  by (simp add: open_for_write_def makedirs_exists_ok_def)

lemma write_csv_raises: "\<exists>e. write_csv env filename data flatten sort_column w = (Inl e, w)"
  by (auto simp: write_csv_def open_for_write_TypeError Let_def split: sum.split)

subsection \<open>The claims about \<^verbatim>\<open>combined\<close>\<close>

text \<open>
  C1. With a destination older than the newest origin, \<^verbatim>\<open>combined\<close> is to load every
  origin, convert its records, hand the sequences to the combiner, save the result to the
  destination and return it. On the stale destination \<^verbatim>\<open>out.json\<close> (time 1) with the
  origin \<^verbatim>\<open>in.json\<close> (time 2) the function instead raises \<^verbatim>\<open>TypeError\<close>, at
  \<^verbatim>\<open>load[origin]\<close>, and the destination is not written.
\<close>

theorem combined_stale_raises_TypeError:
  "modified stale_world ''out.json'' = Inr 1 \<and>
   modified stale_world ''in.json'' = Inr 2 \<and>
   combined example_env ''out.json'' concat_combiner in_origins stale_world
     = (Inl TypeError, stale_world)"
  by (simp add: combined_def most_recently_modified_def in_modification_order_def
      modified_def getmtime_def stale_world_def in_origins_def load_subscript_def
      json_file_def)

text \<open>
  C2. With a destination that is not older than its origins, \<^verbatim>\<open>combined\<close> is to write
  nothing and return the decoded content of the destination. On the fresh destination
  \<^verbatim>\<open>out.json\<close> (time 5, holding the empty JSON list) nothing is written, but the call
  raises \<^verbatim>\<open>KeyError\<close> instead of returning the list that \<^verbatim>\<open>read_json\<close> decodes.
\<close>

theorem combined_fresh_raises_KeyError:
  "modified fresh_world ''out.json'' = Inr 5 \<and>
   modified fresh_world ''in.json'' = Inr 2 \<and>
   read_json example_env ''out.json'' fresh_world = Inr (PList []) \<and>
   combined example_env ''out.json'' concat_combiner in_origins fresh_world
     = (Inl KeyError, fresh_world)"
  by (simp add: combined_def most_recently_modified_def in_modification_order_def
      modified_def getmtime_def fresh_world_def in_origins_def load_KeyError
      json_file_def read_json_def open_for_read_def py_open_r_def expand_def
      example_env_def home_expanduser_def)

text \<open>
  C3. When a call of \<^verbatim>\<open>combined\<close> ends in an exception (a failing load, converter or
  combiner among them), the destination file, like every other file, is as it was before
  the call: the argument of \<^verbatim>\<open>save\<close> is evaluated in full before \<^verbatim>\<open>save\<close> starts.
\<close>

theorem combined_failure_leaves_files:
  assumes "combined env destination combiner origins w = (Inl e, w')"
  shows "w' = w \<and> entries w' destination = entries w destination"
proof -
  have "snd (combined env destination combiner origins w) = w"
    by (rule combined_world_unchanged)
  with assms show ?thesis by simp
qed

theorem combined_failure_leaves_files_witness:
  "combined example_env ''out.json'' concat_combiner in_origins stale_world
     = (Inl TypeError, stale_world) \<and>
   entries stale_world ''out.json'' = Some (json_file 1)"
proof -
  have c: "combined example_env ''out.json'' concat_combiner in_origins stale_world
             = (Inl TypeError, stale_world)"
    by (simp add: combined_def most_recently_modified_def in_modification_order_def
        modified_def getmtime_def stale_world_def in_origins_def load_subscript_def
        json_file_def)
  from combined_failure_leaves_files [OF c] c show ?thesis
    by (simp add: stale_world_def)
qed

subsection \<open>The claims about \<^verbatim>\<open>most_recently_modified\<close>\<close>

text \<open>
  C4. For a non-empty list of existing paths, \<^verbatim>\<open>most_recently_modified\<close> returns a path
  of the list whose modification time is maximal among them. The instance: over \<^verbatim>\<open>a\<close>
  (time 1), \<^verbatim>\<open>b\<close> (time 3), \<^verbatim>\<open>c\<close> (time 2) it returns \<^verbatim>\<open>b\<close>.
\<close>

theorem most_recently_modified_maximal:
  assumes "names \<noteq> []" and "\<forall>f\<in>set names. path_exists w f"
  shows "\<exists>p t. most_recently_modified env w (Names names) = Inr p \<and> p \<in> set names \<and>
           modified w p = Inr t \<and>
           (\<forall>q\<in>set names. \<exists>u. modified w q = Inr u \<and> u \<le> t)"
proof -
  let ?g = "\<lambda>f. mtime (the (entries w f))"
  let ?zs = "map (\<lambda>f. (?g f, f)) names"
  let ?z = "last (sort_key fst ?zs)"
  have ne: "?zs \<noteq> []" using assms(1) by simp
  have ord: "in_modification_order w names = Inr (map snd (sort_key fst ?zs))"
    using assms(2) by (simp add: in_modification_order_def map_result_modified zip_map_self)
  have sne: "sort_key fst ?zs \<noteq> []" using ne by (rule sort_key_not_Nil)
  have res: "most_recently_modified env w (Names names) = Inr (snd ?z)"
    using sne by (simp add: most_recently_modified_def ord last_map)
  from last_sort_key_max [OF ne]
  have mem: "?z \<in> set ?zs" and mx: "\<forall>z\<in>set ?zs. fst z \<le> fst ?z" by blast+
  from mem obtain f where f: "f \<in> set names" "?z = (?g f, f)" by auto
  have mod: "modified w q = Inr (?g q)" if "q \<in> set names" for q
    using that assms(2) by (auto simp: modified_def getmtime_def path_exists_def)
  have "\<forall>q\<in>set names. ?g q \<le> ?g f"
  proof
    fix q assume "q \<in> set names"
    then have "(?g q, q) \<in> set ?zs" by simp
    with mx have "fst (?g q, q) \<le> fst ?z" by blast
    then show "?g q \<le> ?g f" using f(2) by simp
  qed
  then show ?thesis using res f mod by auto
qed

theorem most_recently_modified_maximal_witness:
  "path_exists abc_world ''a'' \<and> path_exists abc_world ''b'' \<and> path_exists abc_world ''c'' \<and>
   most_recently_modified example_env abc_world (Names [''a'', ''b'', ''c'']) = Inr ''b''"
  using most_recently_modified_maximal [of "[''a'', ''b'', ''c'']" abc_world example_env]
  by (simp add: abc_world_def path_exists_def most_recently_modified_def
      in_modification_order_def modified_def getmtime_def empty_file_def)

text \<open>
  C5. For a glob pattern that matches no file, \<^verbatim>\<open>most_recently_modified\<close> is claimed to
  raise \<^verbatim>\<open>NotFoundError\<close>. It raises, but the exception is the \<^verbatim>\<open>IndexError\<close> of taking
  the last element of an empty list.
\<close>

theorem most_recently_modified_no_match_counterexample:
  "glob_glob example_env empty_world ''*.csv'' = [] \<and>
   most_recently_modified example_env empty_world (Pattern ''*.csv'') \<noteq> Inl NotFoundError"
  by (simp add: most_recently_modified_def in_modification_order_def example_env_def
      literal_glob_def path_exists_def empty_world_def)

text \<open>
  C5, as the code has it. For a glob pattern that matches no file,
  \<^verbatim>\<open>most_recently_modified\<close> raises \<^verbatim>\<open>IndexError\<close>.
\<close>

theorem most_recently_modified_no_match:
  assumes "glob_glob env w pat = []"
  shows "most_recently_modified env w (Pattern pat) = Inl IndexError"
  using assms by (simp add: most_recently_modified_def in_modification_order_def)

theorem most_recently_modified_no_match_witness:
  "glob_glob example_env empty_world ''*.csv'' = [] \<and>
   most_recently_modified example_env empty_world (Pattern ''*.csv'') = Inl IndexError"
proof -
  have g: "glob_glob example_env empty_world ''*.csv'' = []"
    by (simp add: example_env_def literal_glob_def path_exists_def empty_world_def)
  from most_recently_modified_no_match [OF g] g show ?thesis by simp
qed

subsection \<open>The claims about \<^verbatim>\<open>load\<close> and \<^verbatim>\<open>save\<close>\<close>

text \<open>
  C6. \<^verbatim>\<open>load\<close> and \<^verbatim>\<open>save\<close> are claimed to fail with \<^verbatim>\<open>UnsupportedFormatError\<close> on a
  path whose extension is not recognised. On \<^verbatim>\<open>notes.txt\<close> both fail, with the
  \<^verbatim>\<open>KeyError\<close> of the table lookup.
\<close>

theorem load_save_unrecognized_counterexample:
  "splitext ''notes.txt'' = (''notes'', ''.txt'') \<and>
   load example_env ''notes.txt'' empty_world \<noteq> Inl UnsupportedFormatError \<and>
   fst (save example_env ''notes.txt'' PNone empty_world) \<noteq> Inl UnsupportedFormatError"
  by (simp add: load_KeyError save_KeyError splitext_def rfind_def)

text \<open>
  C6, as the code has it. The tables \<^verbatim>\<open>READERS\<close> and \<^verbatim>\<open>WRITERS\<close> are keyed by \<^verbatim>\<open>csv\<close>,
  \<^verbatim>\<open>json\<close> and \<^verbatim>\<open>yaml\<close>; for a path whose extension is none of these, \<^verbatim>\<open>load\<close> and
  \<^verbatim>\<open>save\<close> raise \<^verbatim>\<open>KeyError\<close>, there is no default reader or writer, and \<^verbatim>\<open>save\<close> leaves
  the file system as it was.
\<close>

theorem load_save_unrecognized_KeyError:
  assumes "snd (splitext filename) \<notin> {''.csv'', ''.json'', ''.yaml''}"
  shows "map fst READERS = [KStr ''csv'', KStr ''json'', KStr ''yaml''] \<and>
         map fst WRITERS = [KStr ''csv'', KStr ''json'', KStr ''yaml''] \<and>
         load env filename w = Inl KeyError \<and>
         save env filename data w = (Inl KeyError, w)"
  by (simp add: load_KeyError save_KeyError READERS_def WRITERS_def)

theorem load_save_unrecognized_KeyError_witness:
  "snd (splitext ''notes.txt'') = ''.txt'' \<and>
   load example_env ''notes.txt'' empty_world = Inl KeyError \<and>
   save example_env ''notes.txt'' PNone empty_world = (Inl KeyError, empty_world)"
proof -
  have x: "snd (splitext ''notes.txt'') = ''.txt''"
    by (simp add: splitext_def rfind_def)
  then have "snd (splitext ''notes.txt'') \<notin> {''.csv'', ''.json'', ''.yaml''}"
    by simp
  from load_save_unrecognized_KeyError [OF this] x show ?thesis by simp
qed

text \<open>
  C7. \<^verbatim>\<open>save(path, content)\<close> is to return the content it was given. For each of the
  three formats \<^verbatim>\<open>save\<close> raises \<^verbatim>\<open>KeyError\<close> instead, and so would each writer raise
  \<^verbatim>\<open>TypeError\<close> if \<^verbatim>\<open>save\<close> reached it.
\<close>

theorem save_returns_no_content:
  "save example_env ''out.json'' (PList [PInt 1]) stale_world = (Inl KeyError, stale_world) \<and>
   save example_env ''out.yaml'' (PList [PInt 1]) stale_world = (Inl KeyError, stale_world) \<and>
   save example_env ''out.csv'' (PList [row_jan, row_feb]) stale_world
     = (Inl KeyError, stale_world) \<and>
   fst (write_json example_env ''out.json'' (PList [PInt 1]) stale_world) = Inl TypeError \<and>
   fst (write_yaml example_env ''out.yaml'' (PList [PInt 1]) stale_world) = Inl TypeError \<and>
   fst (default_write_csv example_env ''out.csv'' (PList [row_jan, row_feb]) stale_world)
     = Inl TypeError"
  by (simp add: save_def WRITERS_def write_json_def write_yaml_def open_for_read_w_def
      py_open_w_def is_dir_def expand_def example_env_def home_expanduser_def
      stale_world_def json_file_def dirname_def rfind_def
      default_write_csv_def write_csv_def open_for_write_TypeError sorted_by_def
      row_jan_def row_feb_def Let_def
      split: prod.split sum.split)

text \<open>
  C8. \<^verbatim>\<open>save\<close> followed by \<^verbatim>\<open>load\<close> of the same path is to give back the content. For
  the empty list and \<^verbatim>\<open>out.json\<close> both calls raise \<^verbatim>\<open>KeyError\<close>.
\<close>

theorem save_then_load_raises:
  "(case save example_env ''out.json'' (PList []) stale_world of
      (saved, w') \<Rightarrow> (saved, load example_env ''out.json'' w'))
   = (Inl KeyError, Inl KeyError)"
  by (simp add: save_def load_def WRITERS_def READERS_def split: prod.split)

subsection \<open>The claim about the sorted CSV output\<close>

text \<open>
  C9. Writing rows as CSV with the sort column \<^verbatim>\<open>Date\<close> is to emit them in ascending
  order of \<^verbatim>\<open>Date\<close> under a header that starts with \<^verbatim>\<open>Date\<close>. The rows are sorted, and
  then \<^verbatim>\<open>open_for_write\<close> raises \<^verbatim>\<open>TypeError\<close>: no file is created and nothing is emitted.
\<close>

theorem default_write_csv_emits_nothing:
  "sorted_by (py_getitem_str ''Date'') (PList [row_feb, row_jan]) = Inr [row_jan, row_feb] \<and>
   default_write_csv example_env ''ledger.csv'' (PList [row_feb, row_jan]) empty_world
     = (Inl TypeError, empty_world)"
  by (simp add: default_write_csv_def write_csv_def open_for_write_TypeError sorted_by_def
      row_jan_def row_feb_def)

subsection \<open>The claim about path expansion\<close>

text \<open>
  C10. Every function that takes a file name is to expand \<^verbatim>\<open>~\<close> and variable references
  before it touches the file system. \<^verbatim>\<open>open_for_read\<close> does; \<^verbatim>\<open>modified\<close> and the
  existence test of \<^verbatim>\<open>function_cached_with_file\<close> hand the name to the operating system
  as it is, so the file \<^verbatim>\<open>~/notes.json\<close> of the user whose home is \<^verbatim>\<open>/home/u\<close> is
  not found.
\<close>

theorem modified_does_not_expand:
  "expand example_env ''~/notes.json'' = ''/home/u/notes.json'' \<and>
   open_for_read example_env ''~/notes.json'' home_world = Inr ''[]'' \<and>
   modified home_world (expand example_env ''~/notes.json'') = Inr 5 \<and>
   modified home_world ''~/notes.json'' = Inl FileNotFoundError \<and>
   \<not> path_exists home_world ''~/notes.json''"
  by (simp add: expand_def example_env_def home_expanduser_def open_for_read_def
      py_open_r_def modified_def getmtime_def path_exists_def home_world_def json_file_def)

end
